theory Spec2Isabelle
  imports Main
begin

section \<open>Errors\<close>

text \<open>
  A Go \<open>error\<close> value as the server code observes it: which sentinel or dynamic type it
  is (the code compares with \<open>http.ErrNoCookie\<close> and \<open>ErrSessionExpired\<close> by identity and
  asserts the type \<open>*echo.HTTPError\<close>, reading its \<open>Code\<close>), and what \<open>err.Error()\<close>
  prints.
\<close>

datatype errclass = NoCookieErr | SessionExpiredErr | HTTPErr nat | OtherErr

datatype error = Error (cls: errclass) (errtext: string)

text \<open>\<open>fmt.Errorf(prefix + "%v", err)\<close>: a fresh plain error whose text embeds the cause.\<close>

definition Errorf :: "string \<Rightarrow> string \<Rightarrow> error" where
  "Errorf prefix detail = Error OtherErr (prefix @ detail)"

section \<open>Server configuration\<close>

text \<open>The two fields of \<open>url.URL\<close> that the parsers read.\<close>

record URL =
  Scheme :: string
  Host :: string

text \<open>
  \<open>Server.imap\<close> and \<open>Server.smtp\<close>. The pool type \<open>ConnPool\<close> and its constructor are
  declared outside the files at hand: the type is a parameter, and a nil pointer is
  \<open>None\<close>.
\<close>

record 'p imap_config =
  host :: string
  tls :: bool
  insecure :: bool
  pool :: "'p option"

record smtp_config =
  smtp_host :: string
  smtp_tls :: bool
  smtp_insecure :: bool

record 'p Server =
  imap :: "'p imap_config"
  smtp :: smtp_config

text \<open>\<open>&Server{}\<close>: every field at its zero value.\<close>

definition zero_Server :: "'p Server" where
  "zero_Server =
     \<lparr>imap = \<lparr>host = [], tls = False, insecure = False, pool = None\<rparr>,
      smtp = \<lparr>smtp_host = [], smtp_tls = False, smtp_insecure = False\<rparr>\<rparr>"

text \<open>
  \<open>parseIMAPURL\<close> mutates its receiver and returns an error or nil: the model returns the
  error (if any) together with the receiver as the call leaves it. The standard library's
  \<open>url.Parse\<close> is the parameter \<open>url_Parse\<close>. The host is assigned before the scheme is
  inspected, as in the source.
\<close>

definition parseIMAPURL ::
  "(string \<Rightarrow> error + URL) \<Rightarrow> 'p Server \<Rightarrow> string \<Rightarrow> error option \<times> 'p Server" where
  "parseIMAPURL url_Parse s imapURL =
     (case url_Parse imapURL of
        Inl err \<Rightarrow> (Some (Errorf ''failed to parse IMAP server URL: '' (errtext err)), s)
      | Inr u \<Rightarrow>
          (let s1 = s\<lparr>imap := (imap s)\<lparr>host := Host u\<rparr>\<rparr> in
           if Scheme u = ''imap'' then (None, s1)
           else if Scheme u = ''imaps'' then (None, s1\<lparr>imap := (imap s1)\<lparr>tls := True\<rparr>\<rparr>)
           else if Scheme u = ''imap+insecure''
             then (None, s1\<lparr>imap := (imap s1)\<lparr>insecure := True\<rparr>\<rparr>)
           else (Some (Errorf ''unrecognized IMAP URL scheme: '' (Scheme u)), s1)))"

definition parseSMTPURL ::
  "(string \<Rightarrow> error + URL) \<Rightarrow> 'p Server \<Rightarrow> string \<Rightarrow> error option \<times> 'p Server" where
  "parseSMTPURL url_Parse s smtpURL =
     (case url_Parse smtpURL of
        Inl err \<Rightarrow> (Some (Errorf ''failed to parse SMTP server URL: '' (errtext err)), s)
      | Inr u \<Rightarrow>
          (let s1 = s\<lparr>smtp := (smtp s)\<lparr>smtp_host := Host u\<rparr>\<rparr> in
           if Scheme u = ''smtp'' then (None, s1)
           else if Scheme u = ''smtps''
             then (None, s1\<lparr>smtp := (smtp s1)\<lparr>smtp_tls := True\<rparr>\<rparr>)
           else if Scheme u = ''smtp+insecure''
             then (None, s1\<lparr>smtp := (smtp s1)\<lparr>smtp_insecure := True\<rparr>\<rparr>)
           else (Some (Errorf ''unrecognized SMTP URL scheme: '' (Scheme u)), s1)))"

text \<open>
  \<open>NewServer\<close>: \<open>Inl\<close> is the Go result \<open>(nil, err)\<close>, \<open>Inr\<close> is \<open>(s, nil)\<close>.
  \<open>NewConnPool()\<close> is the parameter \<open>newConnPool\<close>.
\<close>

definition NewServer ::
  "(string \<Rightarrow> error + URL) \<Rightarrow> 'p \<Rightarrow> string \<Rightarrow> string \<Rightarrow> error + 'p Server" where
  "NewServer url_Parse newConnPool imapURL smtpURL =
     (case parseIMAPURL url_Parse zero_Server imapURL of
        (Some err, _) \<Rightarrow> Inl err
      | (None, s1) \<Rightarrow>
          (let s2 = s1\<lparr>imap := (imap s1)\<lparr>pool := Some newConnPool\<rparr>\<rparr> in
           if smtpURL \<noteq> [] then
             (case parseSMTPURL url_Parse s2 smtpURL of
                (Some err, _) \<Rightarrow> Inl err
              | (None, s3) \<Rightarrow> Inr s3)
           else Inr s2))"

text \<open>
  A stand-in for \<open>url.Parse\<close> on inputs of the shape \<open>scheme://host\<close>, used to run the
  definitions on concrete URLs: a string with the control character DEL does not parse; the
  scheme is what precedes the first colon and the host what follows \<open>://\<close>; a string
  without a colon has neither.
\<close>

definition sample_url_Parse :: "string \<Rightarrow> error + URL" where
  "sample_url_Parse raw =
     (if CHR 0x7F \<in> set raw then Inl (Error OtherErr ''invalid control character in URL'')
      else if CHR '':'' \<in> set raw
        then Inr \<lparr>Scheme = takeWhile (\<lambda>c. c \<noteq> CHR '':'') raw,
                  Host = drop 3 (dropWhile (\<lambda>c. c \<noteq> CHR '':'') raw)\<rparr>
      else Inr \<lparr>Scheme = [], Host = []\<rparr>)"

definition imap_schemes :: "string set" where
  "imap_schemes = {''imap'', ''imaps'', ''imap+insecure''}"

definition smtp_schemes :: "string set" where
  "smtp_schemes = {''smtp'', ''smtps'', ''smtp+insecure''}"

section \<open>Requests, cookies and the calls a handler makes\<close>

text \<open>A handle for an \<open>*imapclient.Client\<close>.\<close>

type_synonym conn = nat

text \<open>The fields of \<open>Session\<close> that the server code reads.\<close>

record Session =
  imapConn :: conn
  username :: string
  password :: string

text \<open>
  \<open>http.Cookie\<close>: the fields the code sets, and \<open>MaxAge\<close>, which together with \<open>Expires\<close>
  decides the cookie's lifetime. \<open>Expires\<close> is in Unix seconds, \<open>None\<close> the zero
  \<open>time.Time\<close> (no \<open>Expires\<close> attribute is sent).
\<close>

record cookie =
  Name :: string
  Value :: string
  HttpOnly :: bool
  Expires :: "int option"
  MaxAge :: int

definition cookieName :: string where
  "cookieName = ''koushin_session''"

definition aLongTimeAgo :: int where
  "aLongTimeAgo = 233431200"

text \<open>
  A cookie without \<open>Expires\<close> and \<open>Max-Age\<close> lives as long as the browser session; a cookie
  whose \<open>Expires\<close> lies before the time of the response is discarded by the browser.
\<close>

definition session_scoped :: "cookie \<Rightarrow> bool" where
  "session_scoped c = (Expires c = None \<and> MaxAge c = 0)"

definition expired_at :: "int \<Rightarrow> cookie \<Rightarrow> bool" where
  "expired_at now c = (case Expires c of None \<Rightarrow> False | Some t \<Rightarrow> t < now)"

text \<open>
  The calls a handler makes on its collaborators, in the order it makes them: the pool's
  interface (\<open>Get\<close>, \<open>Put\<close>, \<open>Delete\<close>), the IMAP client, the response and the logger.
\<close>

datatype event =
    PoolGet string
  | PoolPut conn string string
  | PoolDelete string
  | DialIMAP
  | Login conn string string
  | Logout conn
  | SetCookie cookie
  | Redirected nat string
  | Rendered nat string
  | Logged error
  | SentString nat string

text \<open>
  What one request finds around it: the request's own data, and what each collaborator
  answers when called. A Go \<open>error\<close> result is \<open>None\<close> for nil.
\<close>

record world =
  req_cookie :: "error + cookie"
  req_path :: string
  form_value :: "string \<Rightarrow> string"
  pool_Get :: "string \<Rightarrow> error + Session"
  pool_Put :: "conn \<Rightarrow> string \<Rightarrow> string \<Rightarrow> error + string"
  connectIMAP :: "error + conn"
  conn_Login :: "conn \<Rightarrow> string \<Rightarrow> string \<Rightarrow> error option"
  conn_Logout :: "conn \<Rightarrow> error option"
  Redirect :: "nat \<Rightarrow> string \<Rightarrow> error option"
  Render :: "nat \<Rightarrow> string \<Rightarrow> error option"

text \<open>The fields that \<open>context\<close> adds to \<open>echo.Context\<close>; a nil pointer is \<open>None\<close>.\<close>

record Context =
  ctx_session :: "Session option"
  ctx_conn :: "conn option"

text \<open>A handler returns an error or nil, or panics on a nil pointer.\<close>

datatype result = Return "error option" | Panic

definition setToken :: "string \<Rightarrow> event list" where
  "setToken token =
     (let cookie = \<lparr>Name = cookieName, Value = token, HttpOnly = True,
                     Expires = None, MaxAge = 0\<rparr>
      in [SetCookie (if token = [] then cookie\<lparr>Expires := Some aLongTimeAgo\<rparr> else cookie)])"

definition handleLogin :: "world \<Rightarrow> Context \<Rightarrow> result \<times> event list" where
  "handleLogin w ctx =
     (let username = form_value w ''username'';
          password = form_value w ''password''
      in if username \<noteq> [] \<and> password \<noteq> [] then
           (case connectIMAP w of
              Inl err \<Rightarrow> (Return (Some err), [DialIMAP])
            | Inr conn \<Rightarrow>
                (case conn_Login w conn username password of
                   Some err \<Rightarrow>
                     (Return (Render w 200 ''login.html''),
                      [DialIMAP, Login conn username password, Logout conn,
                       Rendered 200 ''login.html''])
                 | None \<Rightarrow>
                     (case pool_Put w conn username password of
                        Inl err \<Rightarrow>
                          (Return (Some (Errorf ''failed to put connection in pool: ''
                                     (errtext err))),
                           [DialIMAP, Login conn username password,
                            PoolPut conn username password])
                      | Inr token \<Rightarrow>
                          (Return (Redirect w 302 ''/mailbox/INBOX''),
                           [DialIMAP, Login conn username password,
                            PoolPut conn username password]
                           @ setToken token @ [Redirected 302 ''/mailbox/INBOX'']))))
         else (Return (Render w 200 ''login.html''), [Rendered 200 ''login.html'']))"

text \<open>The handler registered for \<open>GET /logout\<close>.\<close>

definition handleLogout :: "world \<Rightarrow> Context \<Rightarrow> result \<times> event list" where
  "handleLogout w ctx =
     (case ctx_conn ctx of
        None \<Rightarrow> (Panic, [])
      | Some conn \<Rightarrow>
          (case conn_Logout w conn of
             Some err \<Rightarrow>
               (Return (Some (Errorf ''failed to logout: '' (errtext err))), [Logout conn])
           | None \<Rightarrow>
               (Return (Redirect w 302 ''/login''),
                [Logout conn] @ setToken [] @ [Redirected 302 ''/login''])))"

text \<open>The middleware installed by \<open>New\<close>, wrapped around the handler \<open>next\<close>.\<close>

definition middleware ::
  "world \<Rightarrow> (Context \<Rightarrow> result \<times> event list) \<Rightarrow> result \<times> event list" where
  "middleware w next =
     (let ctx = \<lparr>ctx_session = None, ctx_conn = None\<rparr> in
      case req_cookie w of
        Inl err \<Rightarrow>
          if cls err = NoCookieErr then
            (if req_path w = ''/login'' then next ctx
             else (Return (Redirect w 302 ''/login''), [Redirected 302 ''/login'']))
          else (Return (Some err), [])
      | Inr cookie \<Rightarrow>
          (case pool_Get w (Value cookie) of
             Inl err \<Rightarrow>
               if cls err = SessionExpiredErr then
                 (Return (Redirect w 302 ''/login''),
                  [PoolGet (Value cookie)] @ setToken [] @ [Redirected 302 ''/login''])
               else (Return (Some err), [PoolGet (Value cookie)])
           | Inr session \<Rightarrow>
               (case next (ctx\<lparr>ctx_session := Some session,
                                ctx_conn := Some (imapConn session)\<rparr>) of
                  (r, evs) \<Rightarrow> (r, PoolGet (Value cookie) # evs))))"

text \<open>The \<open>HTTPErrorHandler\<close> installed by \<open>New\<close>.\<close>

definition HTTPErrorHandler :: "error \<Rightarrow> event list" where
  "HTTPErrorHandler err =
     (case cls err of
        HTTPErr code \<Rightarrow> [SentString code (errtext err)]
      | _ \<Rightarrow> [Logged err, SentString 500 (errtext err)])"

text \<open>
  One request through the framework: the middleware and the handler run, and an error
  they return is handed to the \<open>HTTPErrorHandler\<close>.
\<close>

definition serve :: "world \<Rightarrow> (Context \<Rightarrow> result \<times> event list) \<Rightarrow> event list" where
  "serve w handler =
     (case middleware w handler of
        (Return (Some err), evs) \<Rightarrow> evs @ HTTPErrorHandler err
      | (_, evs) \<Rightarrow> evs)"

text \<open>A request and its surroundings to run the handlers on.\<close>

definition sample_world :: world where
  "sample_world =
     \<lparr>req_cookie = Inr \<lparr>Name = cookieName, Value = ''c0ffee'', HttpOnly = True,
                          Expires = None, MaxAge = 0\<rparr>,
      req_path = ''/logout'',
      form_value = (\<lambda>k. if k = ''username'' then ''alice''
                         else if k = ''password'' then ''secret'' else []),
      pool_Get = (\<lambda>t. if t = ''c0ffee''
                       then Inr \<lparr>imapConn = 7, username = ''alice'', password = ''secret''\<rparr>
                       else Inl (Error SessionExpiredErr ''session expired'')),
      pool_Put = (\<lambda>c u p. Inr ''c0ffee''),
      connectIMAP = Inr 7,
      conn_Login = (\<lambda>c u p. if p = ''secret'' then None
                              else Some (Error OtherErr ''Invalid credentials'')),
      conn_Logout = (\<lambda>c. None),
      Redirect = (\<lambda>code url. None),
      Render = (\<lambda>code name. None)\<rparr>"

section \<open>The session pool\<close>

text \<open>
  Modelled from the spec: the errors of the Session Store (\<open>ConnPool\<close>), whose defining
  file is not among the sources. \<open>Timeout\<close> is the distinct error of a \<open>Get\<close> that waits
  for exclusive access in vain.
\<close>

datatype pool_error = SessionExpired | SessionBroken | PoolError | Timeout

text \<open>
  Modelled from the spec: a Session Entry of the missing \<open>ConnPool\<close>, with the live
  connection, the cached credentials, the last-activity timestamp and the busy flag; the
  token is the key under which the store holds the entry.
\<close>

record entry =
  connection :: conn
  user :: string
  credential :: string
  lastActive :: nat
  busy :: bool

text \<open>Modelled from the spec: the Session Store of the missing \<open>ConnPool\<close>, a table from token to entry.\<close>

type_synonym store = "string \<rightharpoonup> entry"

text \<open>
  Modelled from the spec: the tunables of the missing \<open>ConnPool\<close>, the keep-alive threshold
  after which \<open>Get\<close> probes the connection and the idle timeout of the Reaper.
\<close>

record pool_cfg =
  keepAlive :: nat
  idleTimeout :: nat

text \<open>
  Modelled from the spec: \<open>Put\<close> of the missing \<open>ConnPool\<close>. The Token Generator's output
  is the list of candidates; a candidate that is already a key is rejected and the next one
  taken; with no candidate left the store cannot allocate.
\<close>

definition Put ::
  "string list \<Rightarrow> store \<Rightarrow> conn \<Rightarrow> string \<Rightarrow> string \<Rightarrow> nat \<Rightarrow> (pool_error + string) \<times> store" where
  "Put candidates st c u p now =
     (case find (\<lambda>t. st t = None) candidates of
        None \<Rightarrow> (Inl PoolError, st)
      | Some t \<Rightarrow>
          (Inr t, st(t \<mapsto> \<lparr>connection = c, user = u, credential = p,
                             lastActive = now, busy = False\<rparr>)))"

text \<open>
  Modelled from the spec: \<open>Get\<close> of the missing \<open>ConnPool\<close>, steps 1 to 5. An absent token
  fails with \<open>SessionExpired\<close>; a busy entry cannot be acquired; otherwise the entry is
  acquired and its activity refreshed, a connection idle past the keep-alive threshold is
  probed, and a failed probe is followed by one re-authentication with the cached
  credentials, whose failure removes the entry.
\<close>

definition Get ::
  "pool_cfg \<Rightarrow> store \<Rightarrow> string \<Rightarrow> nat \<Rightarrow> (conn \<Rightarrow> bool) \<Rightarrow> (string \<Rightarrow> string \<Rightarrow> conn option)
     \<Rightarrow> (pool_error + conn) \<times> store" where
  "Get cfg st token now probe reauth =
     (case st token of
        None \<Rightarrow> (Inl SessionExpired, st)
      | Some e \<Rightarrow>
          if busy e then (Inl Timeout, st)
          else
            (let e1 = e\<lparr>lastActive := now, busy := True\<rparr> in
             if lastActive e + keepAlive cfg < now \<and> \<not> probe (connection e) then
               (case reauth (user e) (credential e) of
                  None \<Rightarrow> (Inl SessionBroken, st(token := None))
                | Some c \<Rightarrow> (Inr c, st(token \<mapsto> e1\<lparr>connection := c\<rparr>)))
             else (Inr (connection e), st(token \<mapsto> e1))))"

text \<open>Modelled from the spec: the release of exclusive access that ends a request (\<open>Get\<close>, step 6).\<close>

definition Release :: "store \<Rightarrow> string \<Rightarrow> store" where
  "Release st token =
     (case st token of None \<Rightarrow> st | Some e \<Rightarrow> st(token \<mapsto> e\<lparr>busy := False\<rparr>))"

text \<open>
  Modelled from the spec: \<open>Delete\<close> of the missing \<open>ConnPool\<close>: the entry is removed if
  present; the connection to log out is returned with the store.
\<close>

definition Delete :: "store \<Rightarrow> string \<Rightarrow> conn option \<times> store" where
  "Delete st token = (map_option connection (st token), st(token := None))"

text \<open>
  Modelled from the spec: one scan of the Reaper over the missing \<open>ConnPool\<close>: an entry
  idle for longer than the timeout is evicted unless it is busy.
\<close>

definition Reap :: "pool_cfg \<Rightarrow> nat \<Rightarrow> store \<Rightarrow> store" where
  "Reap cfg now st =
     (\<lambda>t. case st t of
             None \<Rightarrow> None
           | Some e \<Rightarrow>
               if \<not> busy e \<and> lastActive e + idleTimeout cfg < now then None else Some e)"

text \<open>
  Modelled from the spec: a history of the missing \<open>ConnPool\<close>, as the operations applied
  to it one after the other; a run keeps, beside the store, the tokens that \<open>Put\<close> issued.
\<close>

datatype pool_op =
    OpPut "string list" conn string string nat
  | OpGet string nat "conn \<Rightarrow> bool" "string \<Rightarrow> string \<Rightarrow> conn option"
  | OpRelease string
  | OpDelete string
  | OpReap nat

text \<open>
  Modelled from the spec: one operation applied to the missing \<open>ConnPool\<close>; a successful
  \<open>Put\<close> adds its token to the issued ones.
\<close>

fun pool_step :: "pool_cfg \<Rightarrow> store \<times> string list \<Rightarrow> pool_op \<Rightarrow> store \<times> string list" where
  "pool_step cfg (st, iss) (OpPut candidates c u p now) =
     (case Put candidates st c u p now of
        (Inl _, st') \<Rightarrow> (st', iss)
      | (Inr t, st') \<Rightarrow> (st', t # iss))"
| "pool_step cfg (st, iss) (OpGet t now probe reauth) =
     (snd (Get cfg st t now probe reauth), iss)"
| "pool_step cfg (st, iss) (OpRelease t) = (Release st t, iss)"
| "pool_step cfg (st, iss) (OpDelete t) = (snd (Delete st t), iss)"
| "pool_step cfg (st, iss) (OpReap now) = (Reap cfg now st, iss)"

text \<open>Modelled from the spec: a history of the missing \<open>ConnPool\<close>, run from the empty store.\<close>

definition run_pool :: "pool_cfg \<Rightarrow> pool_op list \<Rightarrow> store \<times> string list" where
  "run_pool cfg ops = foldl (pool_step cfg) (Map.empty, []) ops"

text \<open>Modelled from the spec: tunables to run the missing \<open>ConnPool\<close> on, in seconds.\<close>

definition sample_cfg :: pool_cfg where
  "sample_cfg = \<lparr>keepAlive = 30, idleTimeout = 600\<rparr>"

section \<open>Basic facts\<close>

lemma setToken_clear:
  "setToken [] = [SetCookie \<lparr>Name = cookieName, Value = [], HttpOnly = True,
                              Expires = Some aLongTimeAgo, MaxAge = 0\<rparr>]"
  by (simp add: setToken_def)

lemma setToken_value:
  "token \<noteq> [] \<Longrightarrow>
   setToken token = [SetCookie \<lparr>Name = cookieName, Value = token, HttpOnly = True,
                                 Expires = None, MaxAge = 0\<rparr>]"
  by (simp add: setToken_def)

lemma NewServer_imap_parse_error:
  "url_Parse imapURL = Inl e \<Longrightarrow>
   NewServer url_Parse p imapURL smtpURL =
     Inl (Errorf ''failed to parse IMAP server URL: '' (errtext e))"
  by (simp add: NewServer_def parseIMAPURL_def)

lemma NewServer_imap_bad_scheme:
  "url_Parse imapURL = Inr u \<Longrightarrow> Scheme u \<notin> imap_schemes \<Longrightarrow>
   NewServer url_Parse p imapURL smtpURL =
     Inl (Errorf ''unrecognized IMAP URL scheme: '' (Scheme u))"
  by (simp add: NewServer_def parseIMAPURL_def imap_schemes_def Let_def)

section \<open>The middleware\<close>

text \<open>
  Claim C1. When the request carries the session cookie, the first thing the middleware
  does is call the pool's \<open>Get\<close> with the cookie's value. If \<open>Get\<close> answers
  \<open>ErrSessionExpired\<close>, the middleware sets the cookie to its cleared form and redirects
  to \<open>/login\<close>, whatever the page handler \<open>nxt\<close> is: the handler is not run. If \<open>Get\<close>
  answers a session, the handler runs after the \<open>Get\<close>, on a context that holds the
  session and its connection.
\<close>

theorem middleware_session_cookie:
  assumes "req_cookie w = Inr c"
  shows
    "(\<exists>rest. snd (middleware w nxt) = PoolGet (Value c) # rest) \<and>
     (\<forall>e. pool_Get w (Value c) = Inl e \<and> cls e = SessionExpiredErr \<longrightarrow>
        middleware w nxt =
          (Return (Redirect w 302 ''/login''),
           [PoolGet (Value c),
            SetCookie \<lparr>Name = cookieName, Value = [], HttpOnly = True,
                        Expires = Some aLongTimeAgo, MaxAge = 0\<rparr>,
            Redirected 302 ''/login''])) \<and>
     (\<forall>s. pool_Get w (Value c) = Inr s \<longrightarrow>
        middleware w nxt =
          (fst (nxt \<lparr>ctx_session = Some s, ctx_conn = Some (imapConn s)\<rparr>),
           PoolGet (Value c) #
             snd (nxt \<lparr>ctx_session = Some s, ctx_conn = Some (imapConn s)\<rparr>)))"
  using assms
  by (simp add: middleware_def setToken_clear split: sum.splits prod.splits)

theorem middleware_session_cookie_witness:
  "req_cookie
     (sample_world\<lparr>pool_Get := (\<lambda>t. Inl (Error SessionExpiredErr ''session expired''))\<rparr>) =
     Inr \<lparr>Name = cookieName, Value = ''c0ffee'', HttpOnly = True,
          Expires = None, MaxAge = 0\<rparr> \<and>
   middleware
     (sample_world\<lparr>pool_Get := (\<lambda>t. Inl (Error SessionExpiredErr ''session expired''))\<rparr>)
     (handleLogout sample_world) =
     (Return None,
      [PoolGet ''c0ffee'',
       SetCookie \<lparr>Name = cookieName, Value = [], HttpOnly = True,
                   Expires = Some aLongTimeAgo, MaxAge = 0\<rparr>,
       Redirected 302 ''/login''])"
  using middleware_session_cookie
    [where w = "sample_world\<lparr>pool_Get :=
                  (\<lambda>t. Inl (Error SessionExpiredErr ''session expired''))\<rparr>"
       and c = "\<lparr>Name = cookieName, Value = ''c0ffee'', HttpOnly = True,
                 Expires = None, MaxAge = 0\<rparr>"
       and nxt = "handleLogout sample_world"]
  by (simp add: sample_world_def)

section \<open>Logout\<close>

text \<open>
  Claim C2, as stated, fails on the handler of \<open>GET /logout\<close>: when the connection's
  logout fails, the handler returns the failure, so the client is answered with status 500
  and the text of the error, the cookie is not cleared, and the pool is never asked to
  delete anything.
\<close>

theorem logout_failure_counterexample:
  "handleLogout
     (sample_world\<lparr>conn_Logout := (\<lambda>c. Some (Error OtherErr ''connection closed''))\<rparr>)
     \<lparr>ctx_session = None, ctx_conn = Some 7\<rparr> =
     (Return (Some (Error OtherErr ''failed to logout: connection closed'')), [Logout 7]) \<and>
   serve
     (sample_world\<lparr>conn_Logout := (\<lambda>c. Some (Error OtherErr ''connection closed''))\<rparr>)
     (handleLogout
        (sample_world\<lparr>conn_Logout := (\<lambda>c. Some (Error OtherErr ''connection closed''))\<rparr>)) =
     [PoolGet ''c0ffee'', Logout 7,
      Logged (Error OtherErr ''failed to logout: connection closed''),
      SentString 500 ''failed to logout: connection closed'']"
  by (simp add: sample_world_def handleLogout_def serve_def middleware_def
      HTTPErrorHandler_def Errorf_def)

text \<open>
  Claim C2, amended. The logout handler logs out the connection of the request. If that
  succeeds, it sets the cookie to its cleared form and redirects to \<open>/login\<close>; if it fails,
  it returns the failure, wrapped as \<open>failed to logout: ...\<close>, and does nothing else. In
  neither case does the handler call the pool's \<open>Delete\<close>.
\<close>

theorem handleLogout_behaviour:
  assumes "ctx_conn ctx = Some conn"
  shows
    "(conn_Logout w conn = None \<longrightarrow>
        handleLogout w ctx =
          (Return (Redirect w 302 ''/login''),
           [Logout conn,
            SetCookie \<lparr>Name = cookieName, Value = [], HttpOnly = True,
                        Expires = Some aLongTimeAgo, MaxAge = 0\<rparr>,
            Redirected 302 ''/login''])) \<and>
     (\<forall>err. conn_Logout w conn = Some err \<longrightarrow>
        handleLogout w ctx =
          (Return (Some (Errorf ''failed to logout: '' (errtext err))), [Logout conn])) \<and>
     (\<forall>t. PoolDelete t \<notin> set (snd (handleLogout w ctx)))"
  using assms
  by (auto simp add: handleLogout_def setToken_clear split: option.splits)

theorem handleLogout_behaviour_witness:
  "handleLogout sample_world \<lparr>ctx_session = None, ctx_conn = Some 7\<rparr> =
     (Return None,
      [Logout 7,
       SetCookie \<lparr>Name = cookieName, Value = [], HttpOnly = True,
                   Expires = Some aLongTimeAgo, MaxAge = 0\<rparr>,
       Redirected 302 ''/login''])"
  using handleLogout_behaviour
    [where ctx = "\<lparr>ctx_session = None, ctx_conn = Some 7\<rparr>" and conn = 7
       and w = sample_world]
  by (simp add: sample_world_def)

section \<open>Login\<close>

text \<open>
  Claim C3. When both form values are present, the dial succeeds and the server rejects
  the credentials, the login handler logs the connection out before it renders the login
  page, returns what the rendering returns (the rejection itself is dropped, not returned
  as an error), and neither puts anything into the pool nor sets a cookie.
\<close>

theorem handleLogin_rejected:
  assumes "form_value w ''username'' = u" and "u \<noteq> []"
    and "form_value w ''password'' = p" and "p \<noteq> []"
    and "connectIMAP w = Inr conn"
    and "conn_Login w conn u p = Some err"
  shows
    "handleLogin w ctx =
       (Return (Render w 200 ''login.html''),
        [DialIMAP, Login conn u p, Logout conn, Rendered 200 ''login.html'']) \<and>
     (\<forall>k a b. PoolPut k a b \<notin> set (snd (handleLogin w ctx))) \<and>
     (\<forall>k. SetCookie k \<notin> set (snd (handleLogin w ctx)))"
  using assms by (simp add: handleLogin_def)

theorem handleLogin_rejected_witness:
  "handleLogin
     (sample_world\<lparr>form_value := (\<lambda>k. if k = ''username'' then ''alice'' else ''wrong'')\<rparr>)
     \<lparr>ctx_session = None, ctx_conn = None\<rparr> =
     (Return None,
      [DialIMAP, Login 7 ''alice'' ''wrong'', Logout 7, Rendered 200 ''login.html''])"
  using handleLogin_rejected
    [where w = "sample_world\<lparr>form_value :=
                  (\<lambda>k. if k = ''username'' then ''alice'' else ''wrong'')\<rparr>"
       and u = "''alice''" and p = "''wrong''" and conn = 7
       and err = "Error OtherErr ''Invalid credentials''"
       and ctx = "\<lparr>ctx_session = None, ctx_conn = None\<rparr>"]
  by (simp add: sample_world_def)

text \<open>
  Claim C4. When the login succeeds and \<open>Put\<close> hands out a token (a non-empty string: the
  empty string is what \<open>setToken\<close> reads as the request to clear), the handler puts the
  connection into the pool and sets the cookie \<open>koushin_session\<close> to that token, marked
  \<open>HttpOnly\<close> and without \<open>Expires\<close> or \<open>Max-Age\<close>, before it redirects to the inbox.
  The cookie is cleared by \<open>setToken\<close> on the empty string, which sets \<open>Expires\<close> to a
  time in 1977, in the past of every later moment; the logout handler (when the logout
  succeeds) and the middleware (when the session has expired) clear it this way.
\<close>

theorem login_sets_session_cookie:
  assumes "form_value w ''username'' = u" and "u \<noteq> []"
    and "form_value w ''password'' = p" and "p \<noteq> []"
    and "connectIMAP w = Inr conn"
    and "conn_Login w conn u p = None"
    and "pool_Put w conn u p = Inr token" and "token \<noteq> []"
  shows
    "(\<exists>c. handleLogin w ctx =
         (Return (Redirect w 302 ''/mailbox/INBOX''),
          [DialIMAP, Login conn u p, PoolPut conn u p, SetCookie c,
           Redirected 302 ''/mailbox/INBOX'']) \<and>
        Name c = cookieName \<and> Value c = token \<and> HttpOnly c \<and> session_scoped c) \<and>
     (\<exists>c. setToken [] = [SetCookie c] \<and> Name c = cookieName \<and> Value c = [] \<and>
        Expires c = Some aLongTimeAgo \<and> (\<forall>now. aLongTimeAgo < now \<longrightarrow> expired_at now c)) \<and>
     (\<forall>w' k. conn_Logout w' k = None \<longrightarrow>
        snd (handleLogout w' \<lparr>ctx_session = sess, ctx_conn = Some k\<rparr>) =
          Logout k # setToken [] @ [Redirected 302 ''/login'']) \<and>
     (\<forall>w' c' e nxt. req_cookie w' = Inr c' \<and> pool_Get w' (Value c') = Inl e \<and>
        cls e = SessionExpiredErr \<longrightarrow>
        snd (middleware w' nxt) =
          PoolGet (Value c') # setToken [] @ [Redirected 302 ''/login''])"
proof -
  have a: "\<exists>c. handleLogin w ctx =
         (Return (Redirect w 302 ''/mailbox/INBOX''),
          [DialIMAP, Login conn u p, PoolPut conn u p, SetCookie c,
           Redirected 302 ''/mailbox/INBOX'']) \<and>
        Name c = cookieName \<and> Value c = token \<and> HttpOnly c \<and> session_scoped c"
    using assms by (simp add: handleLogin_def setToken_value session_scoped_def)
  have b: "\<exists>c. setToken [] = [SetCookie c] \<and> Name c = cookieName \<and> Value c = [] \<and>
        Expires c = Some aLongTimeAgo \<and> (\<forall>now. aLongTimeAgo < now \<longrightarrow> expired_at now c)"
    by (simp add: setToken_clear expired_at_def)
  have c: "\<forall>w' k. conn_Logout w' k = None \<longrightarrow>
        snd (handleLogout w' \<lparr>ctx_session = sess, ctx_conn = Some k\<rparr>) =
          Logout k # setToken [] @ [Redirected 302 ''/login'']"
    by (simp add: handleLogout_def)
  have d: "\<forall>w' c' e nxt. req_cookie w' = Inr c' \<and> pool_Get w' (Value c') = Inl e \<and>
        cls e = SessionExpiredErr \<longrightarrow>
        snd (middleware w' nxt) =
          PoolGet (Value c') # setToken [] @ [Redirected 302 ''/login'']"
    by (simp add: middleware_def)
  from a b c d show ?thesis by blast
qed

theorem login_sets_session_cookie_witness:
  "handleLogin sample_world \<lparr>ctx_session = None, ctx_conn = None\<rparr> =
     (Return None,
      [DialIMAP, Login 7 ''alice'' ''secret'', PoolPut 7 ''alice'' ''secret'',
       SetCookie \<lparr>Name = cookieName, Value = ''c0ffee'', HttpOnly = True,
                   Expires = None, MaxAge = 0\<rparr>,
       Redirected 302 ''/mailbox/INBOX'']) \<and>
   expired_at 1572566400
     \<lparr>Name = cookieName, Value = [], HttpOnly = True,
      Expires = Some aLongTimeAgo, MaxAge = 0\<rparr>"
proof -
  have "\<exists>c. handleLogin sample_world \<lparr>ctx_session = None, ctx_conn = None\<rparr> =
         (Return None,
          [DialIMAP, Login 7 ''alice'' ''secret'', PoolPut 7 ''alice'' ''secret'', SetCookie c,
           Redirected 302 ''/mailbox/INBOX'']) \<and>
        Name c = cookieName \<and> Value c = ''c0ffee'' \<and> HttpOnly c \<and> session_scoped c"
    using login_sets_session_cookie
      [where w = sample_world and u = "''alice''" and p = "''secret''" and conn = 7
         and token = "''c0ffee''" and ctx = "\<lparr>ctx_session = None, ctx_conn = None\<rparr>"]
    by (simp add: sample_world_def)
  then obtain c where
    run: "handleLogin sample_world \<lparr>ctx_session = None, ctx_conn = None\<rparr> =
       (Return None,
        [DialIMAP, Login 7 ''alice'' ''secret'', PoolPut 7 ''alice'' ''secret'', SetCookie c,
         Redirected 302 ''/mailbox/INBOX''])"
    and fields: "Name c = cookieName" "Value c = ''c0ffee''" "HttpOnly c" "session_scoped c"
    by blast
  from fields have "c = \<lparr>Name = cookieName, Value = ''c0ffee'', HttpOnly = True,
                          Expires = None, MaxAge = 0\<rparr>"
    by (cases c) (simp add: session_scoped_def)
  with run show ?thesis
    by (simp add: expired_at_def aLongTimeAgo_def)
qed

text \<open>
  Claim C9. When the username or the password form value is empty, the login handler does
  one thing only: it renders the login page. It does not dial, does not log in, puts
  nothing into the pool and sets no cookie.
\<close>

theorem handleLogin_empty_credentials:
  assumes "form_value w ''username'' = [] \<or> form_value w ''password'' = []"
  shows
    "handleLogin w ctx =
       (Return (Render w 200 ''login.html''), [Rendered 200 ''login.html'']) \<and>
     DialIMAP \<notin> set (snd (handleLogin w ctx)) \<and>
     (\<forall>k a b. Login k a b \<notin> set (snd (handleLogin w ctx))) \<and>
     (\<forall>k a b. PoolPut k a b \<notin> set (snd (handleLogin w ctx))) \<and>
     (\<forall>k. SetCookie k \<notin> set (snd (handleLogin w ctx)))"
  using assms by (auto simp add: handleLogin_def)

theorem handleLogin_empty_credentials_witness:
  "handleLogin
     (sample_world\<lparr>form_value := (\<lambda>k. if k = ''username'' then ''alice'' else [])\<rparr>)
     \<lparr>ctx_session = None, ctx_conn = None\<rparr> =
     (Return None, [Rendered 200 ''login.html''])"
  using handleLogin_empty_credentials
    [where w = "sample_world\<lparr>form_value := (\<lambda>k. if k = ''username'' then ''alice'' else [])\<rparr>"
       and ctx = "\<lparr>ctx_session = None, ctx_conn = None\<rparr>"]
  by (simp add: sample_world_def)

section \<open>Errors at the HTTP layer\<close>

text \<open>
  Claim C5, as stated, fails on the \<open>HTTPErrorHandler\<close>: an \<open>*echo.HTTPError\<close> (here a
  400) is answered and not logged.
\<close>

theorem HTTPErrorHandler_counterexample:
  "HTTPErrorHandler (Error (HTTPErr 400) ''code=400, message=bad uid'') =
     [SentString 400 ''code=400, message=bad uid''] \<and>
   (\<forall>e. Logged e \<notin>
      set (HTTPErrorHandler (Error (HTTPErr 400) ''code=400, message=bad uid'')))"
  by (simp add: HTTPErrorHandler_def)

text \<open>
  Claim C5, amended. An error that is not an \<open>*echo.HTTPError\<close> is logged as it is and
  answered with status 500; an \<open>*echo.HTTPError\<close> is answered with its own status code
  and is not logged. (What text the answer carries is not part of the amended claim.)
\<close>

theorem HTTPErrorHandler_logging:
  "(\<forall>code. cls err = HTTPErr code \<longrightarrow>
      (\<exists>body. HTTPErrorHandler err = [SentString code body])) \<and>
   ((\<forall>code. cls err \<noteq> HTTPErr code) \<longrightarrow>
      (\<exists>body. HTTPErrorHandler err = [Logged err, SentString 500 body]))"
  by (cases "cls err") (simp_all add: HTTPErrorHandler_def)

theorem HTTPErrorHandler_logging_witness:
  "\<exists>body. HTTPErrorHandler (Errorf ''failed to put connection in pool: '' ''out of entropy'') =
     [Logged (Errorf ''failed to put connection in pool: '' ''out of entropy''),
      SentString 500 body]"
  using HTTPErrorHandler_logging
    [where err = "Errorf ''failed to put connection in pool: '' ''out of entropy''"]
  by (simp add: Errorf_def)

text \<open>
  The answer carries the text of the error, whichever error it is: the source marks this
  with the note \<open>TODO: hide internal errors\<close>.
\<close>

lemma HTTPErrorHandler_sends_error_text:
  "\<exists>code. last (HTTPErrorHandler err) = SentString code (errtext err)"
  by (cases "cls err") (simp_all add: HTTPErrorHandler_def)

section \<open>Transport modes and the construction of the server\<close>

text \<open>
  Claim C6. For a URL that \<open>url.Parse\<close> accepts, \<open>parseIMAPURL\<close> returns nil exactly for
  the schemes \<open>imap\<close>, \<open>imaps\<close> and \<open>imap+insecure\<close>, and \<open>parseSMTPURL\<close> exactly for
  \<open>smtp\<close>, \<open>smtps\<close> and \<open>smtp+insecure\<close>. The plain scheme records the host and leaves
  both flags as they were, the \<open>s\<close> scheme also sets \<open>tls\<close>, the \<open>+insecure\<close> scheme also
  sets \<open>insecure\<close>. Any other scheme is answered with the error
  \<open>unrecognized ... URL scheme\<close>; neither flag is touched (the host field has been
  assigned by then), and \<open>NewServer\<close>, given such an IMAP URL, returns that error and no
  server.
\<close>

theorem parse_transport_mode:
  assumes "url_Parse raw = Inr u"
  shows
    "(fst (parseIMAPURL url_Parse s raw) = None) = (Scheme u \<in> imap_schemes) \<and>
     (fst (parseSMTPURL url_Parse s raw) = None) = (Scheme u \<in> smtp_schemes) \<and>
     (Scheme u = ''imap'' \<longrightarrow>
        imap (snd (parseIMAPURL url_Parse s raw)) = (imap s)\<lparr>host := Host u\<rparr>) \<and>
     (Scheme u = ''imaps'' \<longrightarrow>
        imap (snd (parseIMAPURL url_Parse s raw)) = (imap s)\<lparr>host := Host u, tls := True\<rparr>) \<and>
     (Scheme u = ''imap+insecure'' \<longrightarrow>
        imap (snd (parseIMAPURL url_Parse s raw)) =
          (imap s)\<lparr>host := Host u, insecure := True\<rparr>) \<and>
     (Scheme u = ''smtp'' \<longrightarrow>
        smtp (snd (parseSMTPURL url_Parse s raw)) = (smtp s)\<lparr>smtp_host := Host u\<rparr>) \<and>
     (Scheme u = ''smtps'' \<longrightarrow>
        smtp (snd (parseSMTPURL url_Parse s raw)) =
          (smtp s)\<lparr>smtp_host := Host u, smtp_tls := True\<rparr>) \<and>
     (Scheme u = ''smtp+insecure'' \<longrightarrow>
        smtp (snd (parseSMTPURL url_Parse s raw)) =
          (smtp s)\<lparr>smtp_host := Host u, smtp_insecure := True\<rparr>) \<and>
     (Scheme u \<notin> imap_schemes \<longrightarrow>
        fst (parseIMAPURL url_Parse s raw) =
          Some (Errorf ''unrecognized IMAP URL scheme: '' (Scheme u)) \<and>
        tls (imap (snd (parseIMAPURL url_Parse s raw))) = tls (imap s) \<and>
        insecure (imap (snd (parseIMAPURL url_Parse s raw))) = insecure (imap s) \<and>
        NewServer url_Parse p raw smtpURL =
          Inl (Errorf ''unrecognized IMAP URL scheme: '' (Scheme u))) \<and>
     (Scheme u \<notin> smtp_schemes \<longrightarrow>
        fst (parseSMTPURL url_Parse s raw) =
          Some (Errorf ''unrecognized SMTP URL scheme: '' (Scheme u)) \<and>
        smtp_tls (smtp (snd (parseSMTPURL url_Parse s raw))) = smtp_tls (smtp s) \<and>
        smtp_insecure (smtp (snd (parseSMTPURL url_Parse s raw))) = smtp_insecure (smtp s))"
proof -
  have i: "(fst (parseIMAPURL url_Parse s raw) = None) = (Scheme u \<in> imap_schemes)"
    using assms by (simp add: parseIMAPURL_def imap_schemes_def Let_def)
  have m: "(fst (parseSMTPURL url_Parse s raw) = None) = (Scheme u \<in> smtp_schemes)"
    using assms by (simp add: parseSMTPURL_def smtp_schemes_def Let_def)
  have iok:
    "Scheme u = ''imap'' \<longrightarrow>
       imap (snd (parseIMAPURL url_Parse s raw)) = (imap s)\<lparr>host := Host u\<rparr>"
    "Scheme u = ''imaps'' \<longrightarrow>
       imap (snd (parseIMAPURL url_Parse s raw)) = (imap s)\<lparr>host := Host u, tls := True\<rparr>"
    "Scheme u = ''imap+insecure'' \<longrightarrow>
       imap (snd (parseIMAPURL url_Parse s raw)) =
         (imap s)\<lparr>host := Host u, insecure := True\<rparr>"
    using assms by (simp_all add: parseIMAPURL_def Let_def)
  have mok:
    "Scheme u = ''smtp'' \<longrightarrow>
       smtp (snd (parseSMTPURL url_Parse s raw)) = (smtp s)\<lparr>smtp_host := Host u\<rparr>"
    "Scheme u = ''smtps'' \<longrightarrow>
       smtp (snd (parseSMTPURL url_Parse s raw)) =
         (smtp s)\<lparr>smtp_host := Host u, smtp_tls := True\<rparr>"
    "Scheme u = ''smtp+insecure'' \<longrightarrow>
       smtp (snd (parseSMTPURL url_Parse s raw)) =
         (smtp s)\<lparr>smtp_host := Host u, smtp_insecure := True\<rparr>"
    using assms by (simp_all add: parseSMTPURL_def Let_def)
  have ibad: "Scheme u \<notin> imap_schemes \<longrightarrow>
        fst (parseIMAPURL url_Parse s raw) =
          Some (Errorf ''unrecognized IMAP URL scheme: '' (Scheme u)) \<and>
        tls (imap (snd (parseIMAPURL url_Parse s raw))) = tls (imap s) \<and>
        insecure (imap (snd (parseIMAPURL url_Parse s raw))) = insecure (imap s) \<and>
        NewServer url_Parse p raw smtpURL =
          Inl (Errorf ''unrecognized IMAP URL scheme: '' (Scheme u))"
    using assms NewServer_imap_bad_scheme [of url_Parse raw u p smtpURL]
    by (simp add: parseIMAPURL_def imap_schemes_def Let_def)
  have mbad: "Scheme u \<notin> smtp_schemes \<longrightarrow>
        fst (parseSMTPURL url_Parse s raw) =
          Some (Errorf ''unrecognized SMTP URL scheme: '' (Scheme u)) \<and>
        smtp_tls (smtp (snd (parseSMTPURL url_Parse s raw))) = smtp_tls (smtp s) \<and>
        smtp_insecure (smtp (snd (parseSMTPURL url_Parse s raw))) = smtp_insecure (smtp s)"
    using assms by (simp add: parseSMTPURL_def smtp_schemes_def Let_def)
  from i m iok mok ibad mbad show ?thesis by blast
qed

theorem parse_transport_mode_witness:
  "sample_url_Parse ''imaps://mail.example.org'' =
     Inr \<lparr>Scheme = ''imaps'', Host = ''mail.example.org''\<rparr> \<and>
   fst (parseIMAPURL sample_url_Parse (zero_Server :: nat Server) ''imaps://mail.example.org'')
     = None \<and>
   imap (snd (parseIMAPURL sample_url_Parse (zero_Server :: nat Server)
     ''imaps://mail.example.org'')) =
     \<lparr>host = ''mail.example.org'', tls = True, insecure = False, pool = None\<rparr> \<and>
   fst (parseSMTPURL sample_url_Parse (zero_Server :: nat Server) ''imaps://mail.example.org'')
     = Some (Error OtherErr ''unrecognized SMTP URL scheme: imaps'')"
proof -
  have h: "sample_url_Parse ''imaps://mail.example.org'' =
     Inr \<lparr>Scheme = ''imaps'', Host = ''mail.example.org''\<rparr>"
    by (simp add: sample_url_Parse_def)
  show ?thesis
    using h parse_transport_mode [where url_Parse = sample_url_Parse
        and raw = "''imaps://mail.example.org''" and s = "zero_Server :: nat Server"
        and p = "0::nat" and smtpURL = "[]"]
    by (simp add: imap_schemes_def smtp_schemes_def zero_Server_def Errorf_def)
qed

text \<open>
  Claim C10. With an IMAP URL that parses and has a recognised scheme, \<open>NewServer\<close> with
  the empty SMTP URL returns a server whose SMTP configuration is still the zero value.
  \<open>NewServer\<close> returns an error, and no server, when the IMAP URL fails to parse or has
  an unrecognised scheme, and when a non-empty SMTP URL fails to parse or has an
  unrecognised scheme (the SMTP error is the one returned once the IMAP URL is accepted).
\<close>

theorem NewServer_smtp_optional:
  "(\<forall>u. url_Parse imapURL = Inr u \<and> Scheme u \<in> imap_schemes \<longrightarrow>
      (\<exists>s. NewServer url_Parse p imapURL [] = Inr s \<and>
           smtp s = \<lparr>smtp_host = [], smtp_tls = False, smtp_insecure = False\<rparr> \<and>
           host (imap s) = Host u \<and> pool (imap s) = Some p)) \<and>
   (\<forall>e. url_Parse imapURL = Inl e \<longrightarrow>
      NewServer url_Parse p imapURL smtpURL =
        Inl (Errorf ''failed to parse IMAP server URL: '' (errtext e))) \<and>
   (\<forall>u. url_Parse imapURL = Inr u \<and> Scheme u \<notin> imap_schemes \<longrightarrow>
      NewServer url_Parse p imapURL smtpURL =
        Inl (Errorf ''unrecognized IMAP URL scheme: '' (Scheme u))) \<and>
   (\<forall>e. smtpURL \<noteq> [] \<and> url_Parse smtpURL = Inl e \<longrightarrow>
      isl (NewServer url_Parse p imapURL smtpURL) \<and>
      (\<forall>u. url_Parse imapURL = Inr u \<and> Scheme u \<in> imap_schemes \<longrightarrow>
         NewServer url_Parse p imapURL smtpURL =
           Inl (Errorf ''failed to parse SMTP server URL: '' (errtext e)))) \<and>
   (\<forall>v. smtpURL \<noteq> [] \<and> url_Parse smtpURL = Inr v \<and> Scheme v \<notin> smtp_schemes \<longrightarrow>
      isl (NewServer url_Parse p imapURL smtpURL) \<and>
      (\<forall>u. url_Parse imapURL = Inr u \<and> Scheme u \<in> imap_schemes \<longrightarrow>
         NewServer url_Parse p imapURL smtpURL =
           Inl (Errorf ''unrecognized SMTP URL scheme: '' (Scheme v))))"
proof -
  have ok: "\<forall>u. url_Parse imapURL = Inr u \<and> Scheme u \<in> imap_schemes \<longrightarrow>
      (\<exists>s. NewServer url_Parse p imapURL [] = Inr s \<and>
           smtp s = \<lparr>smtp_host = [], smtp_tls = False, smtp_insecure = False\<rparr> \<and>
           host (imap s) = Host u \<and> pool (imap s) = Some p)"
    by (auto simp add: NewServer_def parseIMAPURL_def imap_schemes_def zero_Server_def Let_def)
  have ie: "\<forall>e. url_Parse imapURL = Inl e \<longrightarrow>
      NewServer url_Parse p imapURL smtpURL =
        Inl (Errorf ''failed to parse IMAP server URL: '' (errtext e))"
    by (simp add: NewServer_imap_parse_error)
  have ib: "\<forall>u. url_Parse imapURL = Inr u \<and> Scheme u \<notin> imap_schemes \<longrightarrow>
      NewServer url_Parse p imapURL smtpURL =
        Inl (Errorf ''unrecognized IMAP URL scheme: '' (Scheme u))"
    by (simp add: NewServer_imap_bad_scheme)
  have se: "\<forall>e. smtpURL \<noteq> [] \<and> url_Parse smtpURL = Inl e \<longrightarrow>
      isl (NewServer url_Parse p imapURL smtpURL) \<and>
      (\<forall>u. url_Parse imapURL = Inr u \<and> Scheme u \<in> imap_schemes \<longrightarrow>
         NewServer url_Parse p imapURL smtpURL =
           Inl (Errorf ''failed to parse SMTP server URL: '' (errtext e)))"
    by (auto simp add: NewServer_def parseSMTPURL_def parseIMAPURL_def imap_schemes_def Let_def
        split: prod.splits option.splits sum.splits)
  have sb: "\<forall>v. smtpURL \<noteq> [] \<and> url_Parse smtpURL = Inr v \<and> Scheme v \<notin> smtp_schemes \<longrightarrow>
      isl (NewServer url_Parse p imapURL smtpURL) \<and>
      (\<forall>u. url_Parse imapURL = Inr u \<and> Scheme u \<in> imap_schemes \<longrightarrow>
         NewServer url_Parse p imapURL smtpURL =
           Inl (Errorf ''unrecognized SMTP URL scheme: '' (Scheme v)))"
    by (auto simp add: NewServer_def parseSMTPURL_def parseIMAPURL_def imap_schemes_def
        smtp_schemes_def Let_def split: prod.splits option.splits sum.splits)
  from ok ie ib se sb show ?thesis by blast
qed

theorem NewServer_smtp_optional_witness:
  "NewServer sample_url_Parse (0::nat) ''imaps://mail.example.org'' [] =
     Inr \<lparr>imap = \<lparr>host = ''mail.example.org'', tls = True, insecure = False, pool = Some 0\<rparr>,
          smtp = \<lparr>smtp_host = [], smtp_tls = False, smtp_insecure = False\<rparr>\<rparr> \<and>
   NewServer sample_url_Parse (0::nat) ''imaps://mail.example.org'' ''http://out.example.org'' =
     Inl (Error OtherErr ''unrecognized SMTP URL scheme: http'')"
  using NewServer_smtp_optional [where url_Parse = sample_url_Parse and p = "0::nat"
      and imapURL = "''imaps://mail.example.org''" and smtpURL = "''http://out.example.org''"]
  by (simp add: sample_url_Parse_def NewServer_def parseIMAPURL_def parseSMTPURL_def
      zero_Server_def Errorf_def)

section \<open>Unknown tokens\<close>

lemma Put_dom:
  "Put cands st c u p now = (r, st') \<Longrightarrow>
   dom st' \<subseteq> dom st \<union> (case r of Inl _ \<Rightarrow> {} | Inr t \<Rightarrow> {t})"
  by (auto simp add: Put_def split: option.splits)

lemma Get_dom: "dom (snd (Get cfg st t now probe reauth)) \<subseteq> dom st"
  by (auto simp add: Get_def Let_def split: option.splits if_splits)

lemma Release_dom: "dom (Release st t) \<subseteq> dom st"
  by (auto simp add: Release_def split: option.splits)

lemma Delete_dom: "dom (snd (Delete st t)) \<subseteq> dom st"
  by (auto simp add: Delete_def)

lemma Reap_dom: "dom (Reap cfg now st) \<subseteq> dom st"
  by (auto simp add: Reap_def split: option.splits if_splits)

text \<open>Every key of the store is a token that \<open>Put\<close> issued: one step keeps this.\<close>

lemma pool_step_issued:
  assumes "dom st \<subseteq> set iss" and "pool_step cfg (st, iss) op = (st', iss')"
  shows "dom st' \<subseteq> set iss'"
proof (cases op)
  case (OpPut cands c u p now)
  obtain r s1 where P: "Put cands st c u p now = (r, s1)"
    by (cases "Put cands st c u p now")
  from Put_dom [OF P] assms OpPut P show ?thesis
    by (cases r) (auto dest!: subsetD)
next
  case (OpGet t now probe reauth)
  with assms Get_dom [of cfg st t now probe reauth] show ?thesis by auto
next
  case (OpRelease t)
  with assms Release_dom [of st t] show ?thesis by auto
next
  case (OpDelete t)
  with assms Delete_dom [of st t] show ?thesis by auto
next
  case (OpReap now)
  with assms Reap_dom [of cfg now st] show ?thesis by auto
qed

lemma foldl_pool_step_issued:
  "dom st \<subseteq> set iss \<Longrightarrow> foldl (pool_step cfg) (st, iss) ops = (st', iss') \<Longrightarrow>
   dom st' \<subseteq> set iss'"
proof (induction ops arbitrary: st iss)
  case Nil
  then show ?case by simp
next
  case (Cons op ops)
  obtain s1 i1 where S: "pool_step cfg (st, iss) op = (s1, i1)"
    by (cases "pool_step cfg (st, iss) op")
  from pool_step_issued [OF Cons.prems(1) S] have "dom s1 \<subseteq> set i1" .
  moreover from Cons.prems(2) S have "foldl (pool_step cfg) (s1, i1) ops = (st', iss')"
    by simp
  ultimately show ?case by (rule Cons.IH)
qed

lemma run_pool_issued: "run_pool cfg ops = (st, iss) \<Longrightarrow> dom st \<subseteq> set iss"
  unfolding run_pool_def by (rule foldl_pool_step_issued [of Map.empty "[]"]) simp_all

text \<open>
  Claim C7, on the pool as the specification describes it. After any history of the pool,
  \<open>Get\<close> on a token that no \<open>Put\<close> of the history issued fails with \<open>SessionExpired\<close> and
  leaves the store as it is; so does \<open>Get\<close> on any token that is not a key of the store,
  in particular on a token that has just been deleted or that the Reaper has just evicted.
  The answer is the same value in all these cases, so it tells the caller nothing about
  whether the token ever existed.
\<close>

theorem Get_unknown_token:
  "(\<forall>ops st iss. run_pool cfg ops = (st, iss) \<and> t \<notin> set iss \<longrightarrow>
      Get cfg st t now probe reauth = (Inl SessionExpired, st)) \<and>
   (\<forall>st. st t = None \<longrightarrow> Get cfg st t now probe reauth = (Inl SessionExpired, st)) \<and>
   (\<forall>st. fst (Get cfg (snd (Delete st t)) t now probe reauth) = Inl SessionExpired) \<and>
   (\<forall>st e now'. st t = Some e \<and> \<not> busy e \<and> lastActive e + idleTimeout cfg < now' \<longrightarrow>
      fst (Get cfg (Reap cfg now' st) t now probe reauth) = Inl SessionExpired) \<and>
   (\<forall>ops st iss st2 t2. run_pool cfg ops = (st, iss) \<and> t \<notin> set iss \<longrightarrow>
      fst (Get cfg st t now probe reauth) =
      fst (Get cfg (snd (Delete st2 t2)) t2 now probe reauth))"
proof -
  have absent:
    "\<And>st k. st k = None \<Longrightarrow> Get cfg st k now probe reauth = (Inl SessionExpired, st)"
    by (simp add: Get_def)
  have a: "\<forall>ops st iss. run_pool cfg ops = (st, iss) \<and> t \<notin> set iss \<longrightarrow>
      Get cfg st t now probe reauth = (Inl SessionExpired, st)"
  proof (intro allI impI)
    fix ops st iss
    assume h: "run_pool cfg ops = (st, iss) \<and> t \<notin> set iss"
    with run_pool_issued [of cfg ops st iss] have "t \<notin> dom st" by auto
    then show "Get cfg st t now probe reauth = (Inl SessionExpired, st)"
      by (simp add: absent domIff)
  qed
  have d: "\<forall>st k. fst (Get cfg (snd (Delete st k)) k now probe reauth) = Inl SessionExpired"
    by (simp add: absent Delete_def)
  have r: "\<forall>st e now'. st t = Some e \<and> \<not> busy e \<and> lastActive e + idleTimeout cfg < now' \<longrightarrow>
      fst (Get cfg (Reap cfg now' st) t now probe reauth) = Inl SessionExpired"
    by (simp add: absent Reap_def)
  from a d have same: "\<forall>ops st iss st2 t2. run_pool cfg ops = (st, iss) \<and> t \<notin> set iss \<longrightarrow>
      fst (Get cfg st t now probe reauth) =
      fst (Get cfg (snd (Delete st2 t2)) t2 now probe reauth)"
    by simp
  from a absent d r same show ?thesis by blast
qed

theorem Get_unknown_token_witness:
  "snd (run_pool sample_cfg [OpPut [''c0ffee''] 7 ''alice'' ''secret'' 0]) = [''c0ffee''] \<and>
   fst (Get sample_cfg (fst (run_pool sample_cfg [OpPut [''c0ffee''] 7 ''alice'' ''secret'' 0]))
      ''decaf'' 5 (\<lambda>c. True) (\<lambda>u p. None)) = Inl SessionExpired \<and>
   fst (Get sample_cfg (fst (run_pool sample_cfg [OpPut [''c0ffee''] 7 ''alice'' ''secret'' 0]))
      ''c0ffee'' 5 (\<lambda>c. True) (\<lambda>u p. None)) = Inr 7 \<and>
   fst (Get sample_cfg
      (fst (run_pool sample_cfg
         [OpPut [''c0ffee''] 7 ''alice'' ''secret'' 0, OpDelete ''c0ffee'']))
      ''c0ffee'' 5 (\<lambda>c. True) (\<lambda>u p. None)) = Inl SessionExpired"
  using Get_unknown_token [where cfg = sample_cfg and t = "''decaf''" and now = 5
      and probe = "\<lambda>c. True" and reauth = "\<lambda>u p. None"]
  by (simp add: run_pool_def Put_def Get_def Delete_def sample_cfg_def)

end
